theory Spec2Isabelle
  imports Main
begin

section \<open>Python lists and exceptions\<close>

text \<open>
  The two exceptions the graph classes can raise. A subscript out of range raises
  Python's IndexError (the IndexOutOfBounds of the specification); \<^verbatim>\<open>list.index\<close> on an
  absent value raises ValueError (the NotFound of the specification).
\<close>

datatype error = IndexError | ValueError

text \<open>
  \<^verbatim>\<open>xs[i]\<close> on a list of length \<open>n\<close>: the positions \<open>0 .. n - 1\<close> are read directly,
  the positions \<open>- n .. - 1\<close> count from the end, every other integer raises IndexError.
\<close>

definition subscript :: "nat \<Rightarrow> int \<Rightarrow> nat option" where
  "subscript n i =
     (if 0 \<le> i \<and> i < int n then Some (nat i)
      else if - int n \<le> i \<and> i < 0 then Some (nat (int n + i))
      else None)"

definition getitem :: "'a list \<Rightarrow> int \<Rightarrow> error + 'a" where
  "getitem xs i =
     (case subscript (length xs) i of
        None \<Rightarrow> Inl IndexError
      | Some k \<Rightarrow> Inr (xs ! k))"

text \<open>\<^verbatim>\<open>xs.index(x)\<close>: the position of the first element equal to \<open>x\<close>, or ValueError.\<close>

fun index :: "'a list \<Rightarrow> 'a \<Rightarrow> error + nat" where
  "index [] x = Inl ValueError"
| "index (y # ys) x =
     (if y = x then Inr 0
      else (case index ys x of Inl e \<Rightarrow> Inl e | Inr k \<Rightarrow> Inr (Suc k)))"

text \<open>
  \<^verbatim>\<open>list(map(f, xs))\<close> for an \<open>f\<close> that may raise: the elements are produced from
  left to right and the first exception ends the call.
\<close>

fun list_map :: "('a \<Rightarrow> error + 'b) \<Rightarrow> 'a list \<Rightarrow> error + 'b list" where
  "list_map f [] = Inr []"
| "list_map f (x # xs) =
     (case f x of
        Inl e \<Rightarrow> Inl e
      | Inr y \<Rightarrow> (case list_map f xs of Inl e \<Rightarrow> Inl e | Inr ys \<Rightarrow> Inr (y # ys)))"

section \<open>edge.py\<close>

record edge =
  u :: int
  v :: int

definition reversed :: "edge \<Rightarrow> edge" where
  "reversed e = \<lparr>u = v e, v = u e\<rparr>"

section \<open>graph.py\<close>

text \<open>
  The two private lists of the class, \<^verbatim>\<open>_vertices\<close> and \<^verbatim>\<open>_edges\<close>. The type of the
  stored edges is a parameter: class Graph stores \<^typ>\<open>edge\<close>, class WeightedGraph
  stores the extension of it that carries a weight. The constructor keeps the list
  object it is given (or the shared default list) as \<^verbatim>\<open>_vertices\<close>; the model takes
  each graph to be the only holder of its two lists, as the specification does.
\<close>

record ('v, 'e) graph =
  vertices :: "'v list"
  edges :: "'e list list"

text \<open>
  A method that mutates the graph returns what the call produced (a value, or the
  exception it raised) together with the graph as the call left it, so that a mutation
  made before an exception stays visible.
\<close>

type_synonym ('r, 'v, 'e) outcome = "(error + 'r) \<times> ('v, 'e) graph"

definition init :: "'v list \<Rightarrow> ('v, 'e) graph" where
  "init vs = \<lparr>vertices = vs, edges = map (\<lambda>_. []) vs\<rparr>"

definition vertex_count :: "('v, 'e) graph \<Rightarrow> int" where
  "vertex_count g = int (length (vertices g))"

definition edge_count :: "('v, 'e) graph \<Rightarrow> int" where
  "edge_count g = int (sum_list (map length (edges g)))"

definition add_vertex :: "('v, 'e) graph \<Rightarrow> 'v \<Rightarrow> (int, 'v, 'e) outcome" where
  "add_vertex g vertex =
     (let g1 = g\<lparr>vertices := vertices g @ [vertex]\<rparr>;
          g2 = g1\<lparr>edges := edges g1 @ [[]]\<rparr>
      in (Inr (vertex_count g2 - 1), g2))"

text \<open>
  \<^verbatim>\<open>self._edges[i].append(e)\<close> once the subscript \<open>i\<close> has been resolved to a
  position of the list: the adjacency list at that position grows by one entry at its
  end, every other list is left alone.
\<close>

definition append_at :: "'e list list \<Rightarrow> nat \<Rightarrow> 'e \<Rightarrow> 'e list list" where
  "append_at E i e = E[i := E ! i @ [e]]"

text \<open>
  \<^verbatim>\<open>add_edge\<close> is inherited by WeightedGraph and calls the \<^verbatim>\<open>reversed\<close> method of
  the edge it is given, so the method is the first argument here. The first statement
  subscripts and appends; only then does the second statement subscript.
\<close>

definition add_edge ::
  "('a edge_scheme \<Rightarrow> 'a edge_scheme) \<Rightarrow> ('v, 'a edge_scheme) graph \<Rightarrow> 'a edge_scheme
     \<Rightarrow> (unit, 'v, 'a edge_scheme) outcome" where
  "add_edge rev_method g e =
     (case subscript (length (edges g)) (u e) of
        None \<Rightarrow> (Inl IndexError, g)
      | Some i \<Rightarrow>
          (let g1 = g\<lparr>edges := append_at (edges g) i e\<rparr> in
           (case subscript (length (edges g1)) (v e) of
              None \<Rightarrow> (Inl IndexError, g1)
            | Some j \<Rightarrow> (Inr (), g1\<lparr>edges := append_at (edges g1) j (rev_method e)\<rparr>))))"

definition add_edge_by_indices :: "('v, edge) graph \<Rightarrow> int \<Rightarrow> int \<Rightarrow> (unit, 'v, edge) outcome" where
  "add_edge_by_indices g a b = add_edge reversed g \<lparr>u = a, v = b\<rparr>"

definition add_edge_by_vertices :: "('v, edge) graph \<Rightarrow> 'v \<Rightarrow> 'v \<Rightarrow> (unit, 'v, edge) outcome" where
  "add_edge_by_vertices g first second =
     (case index (vertices g) first of
        Inl e \<Rightarrow> (Inl e, g)
      | Inr a \<Rightarrow>
          (case index (vertices g) second of
             Inl e \<Rightarrow> (Inl e, g)
           | Inr b \<Rightarrow> add_edge_by_indices g (int a) (int b)))"

definition vertex_at :: "('v, 'e) graph \<Rightarrow> int \<Rightarrow> error + 'v" where
  "vertex_at g i = getitem (vertices g) i"

definition index_of :: "('v, 'e) graph \<Rightarrow> 'v \<Rightarrow> error + int" where
  "index_of g vertex =
     (case index (vertices g) vertex of Inl e \<Rightarrow> Inl e | Inr k \<Rightarrow> Inr (int k))"

definition neighbors_for_index :: "('v, 'a edge_scheme) graph \<Rightarrow> int \<Rightarrow> error + 'v list" where
  "neighbors_for_index g i =
     (case getitem (edges g) i of
        Inl e \<Rightarrow> Inl e
      | Inr es \<Rightarrow> list_map (vertex_at g) (map v es))"

definition neighbors_for_vertex :: "('v, 'a edge_scheme) graph \<Rightarrow> 'v \<Rightarrow> error + 'v list" where
  "neighbors_for_vertex g vertex =
     (case index_of g vertex of Inl e \<Rightarrow> Inl e | Inr i \<Rightarrow> neighbors_for_index g i)"

definition edges_for_index :: "('v, 'e) graph \<Rightarrow> int \<Rightarrow> error + 'e list" where
  "edges_for_index g i = getitem (edges g) i"

definition edges_for_vertex :: "('v, 'e) graph \<Rightarrow> 'v \<Rightarrow> error + 'e list" where
  "edges_for_vertex g vertex =
     (case index_of g vertex of Inl e \<Rightarrow> Inl e | Inr i \<Rightarrow> edges_for_index g i)"

section \<open>weighted_graph.py\<close>

text \<open>
  Modelled from the spec: class WeightedEdge (module \<^verbatim>\<open>weighted_edge\<close>) is imported
  by \<^verbatim>\<open>weighted_graph.py\<close> and is not among the source files. The specification
  describes it as an Edge plus a \<^verbatim>\<open>weight\<close>. The weight is a Python float on which
  the graph does no arithmetic; its type is left open.
\<close>

record 'w weighted_edge = edge +
  weight :: 'w

text \<open>
  Modelled from the spec: the \<^verbatim>\<open>reversed\<close> method of the missing class WeightedEdge.
  The specification says that the reverse entry of a weighted edge carries the same
  weight, the endpoints being swapped as for an Edge.
\<close>

definition weighted_reversed :: "'w weighted_edge \<Rightarrow> 'w weighted_edge" where
  "weighted_reversed e = \<lparr>u = v e, v = u e, weight = weight e\<rparr>"

definition weighted_add_edge_by_indices ::
  "('v, 'w weighted_edge) graph \<Rightarrow> int \<Rightarrow> int \<Rightarrow> 'w \<Rightarrow> (unit, 'v, 'w weighted_edge) outcome" where
  "weighted_add_edge_by_indices g a b w =
     add_edge weighted_reversed g \<lparr>u = a, v = b, weight = w\<rparr>"

definition weighted_add_edge_by_vertices ::
  "('v, 'w weighted_edge) graph \<Rightarrow> 'v \<Rightarrow> 'v \<Rightarrow> 'w \<Rightarrow> (unit, 'v, 'w weighted_edge) outcome" where
  "weighted_add_edge_by_vertices g first second w =
     (case index (vertices g) first of
        Inl e \<Rightarrow> (Inl e, g)
      | Inr a \<Rightarrow>
          (case index (vertices g) second of
             Inl e \<Rightarrow> (Inl e, g)
           | Inr b \<Rightarrow> weighted_add_edge_by_indices g (int a) (int b) w))"

text \<open>The loop of \<^verbatim>\<open>neighbors_for_index_with_weights\<close>, with its accumulator.\<close>

fun distance_tuples ::
  "('v, 'w weighted_edge) graph \<Rightarrow> 'w weighted_edge list \<Rightarrow> ('v \<times> 'w) list
     \<Rightarrow> error + ('v \<times> 'w) list" where
  "distance_tuples g [] acc = Inr acc"
| "distance_tuples g (e # es) acc =
     (case vertex_at g (v e) of
        Inl x \<Rightarrow> Inl x
      | Inr y \<Rightarrow> distance_tuples g es (acc @ [(y, weight e)]))"

definition neighbors_for_index_with_weights ::
  "('v, 'w weighted_edge) graph \<Rightarrow> int \<Rightarrow> error + ('v \<times> 'w) list" where
  "neighbors_for_index_with_weights g i =
     (case edges_for_index g i of
        Inl e \<Rightarrow> Inl e
      | Inr es \<Rightarrow> distance_tuples g es [])"

section \<open>Valid indices\<close>

text \<open>
  An index is valid when it lies in \<open>[0, vertexCount)\<close>. The constructor builds one
  adjacency list for every vertex and no method changes the length of one sequence
  without the other, so the theorems below that subscript the adjacency sequence at a
  valid index assume the two sequences to be of equal length.
\<close>

definition valid_index :: "('v, 'e) graph \<Rightarrow> int \<Rightarrow> bool" where
  "valid_index g i = (0 \<le> i \<and> i < vertex_count g)"

section \<open>Facts about the list operations\<close>

lemma subscript_valid: "0 \<le> i \<Longrightarrow> i < int n \<Longrightarrow> subscript n i = Some (nat i)"
  by (simp add: subscript_def)

lemma subscript_None_iff: "subscript n i = None \<longleftrightarrow> (i < - int n \<or> int n \<le> i)"
  by (auto simp: subscript_def)

lemma subscript_Some_less: "subscript n i = Some k \<Longrightarrow> k < n"
  by (auto simp: subscript_def split: if_splits)

lemma index_Inl_iff: "index xs x = Inl e \<longleftrightarrow> (e = ValueError \<and> x \<notin> set xs)"
  by (induction xs) (auto split: sum.splits)

lemma index_Inr_first:
  "index xs x = Inr k \<Longrightarrow> k < length xs \<and> xs ! k = x \<and> (\<forall>j<k. xs ! j \<noteq> x)"
proof (induction xs arbitrary: k)
  case Nil
  then show ?case by simp
next
  case (Cons y ys)
  show ?case
  proof (cases "y = x")
    case True
    with Cons.prems show ?thesis by simp
  next
    case False
    with Cons.prems obtain m where m: "index ys x = Inr m" "k = Suc m"
      by (auto split: sum.splits)
    from Cons.IH [OF m(1)] False m(2) show ?thesis
      by (auto simp: nth_Cons split: nat.splits)
  qed
qed

lemma index_Inr_member: "index xs x = Inr k \<Longrightarrow> x \<in> set xs"
  using index_Inr_first [of xs x k] nth_mem [of k xs] by auto

lemma index_member: "x \<in> set xs \<Longrightarrow> \<exists>k. index xs x = Inr k"
  by (induction xs) (auto split: sum.splits)

lemma index_nth_distinct: "distinct xs \<Longrightarrow> i < length xs \<Longrightarrow> index xs (xs ! i) = Inr i"
proof -
  assume d: "distinct xs" and i: "i < length xs"
  then obtain k where k: "index xs (xs ! i) = Inr k"
    using index_member [of "xs ! i" xs] by auto
  from index_Inr_first [OF k] have "k < length xs" "xs ! k = xs ! i" by auto
  with d i have "k = i" by (simp add: nth_eq_iff_index_eq)
  with k show ?thesis by simp
qed

lemma list_map_append:
  "list_map f (xs @ ys) =
     (case list_map f xs of
        Inl e \<Rightarrow> Inl e
      | Inr as \<Rightarrow> (case list_map f ys of Inl e \<Rightarrow> Inl e | Inr bs \<Rightarrow> Inr (as @ bs)))"
  by (induction xs) (auto split: sum.splits)






lemma sum_list_length_append1:
  "i < length xss \<Longrightarrow>
   sum_list (map length (xss[i := xss ! i @ [e]])) = Suc (sum_list (map length xss))"
proof (induction xss arbitrary: i)
  case Nil
  then show ?case by simp
next
  case (Cons xs xss)
  then show ?case by (cases i) auto
qed

section \<open>Facts about the graph operations\<close>

lemma valid_index_edges_update [simp]: "valid_index (g\<lparr>edges := E\<rparr>) i = valid_index g i"
  by (simp add: valid_index_def vertex_count_def)

lemma valid_index_subscript:
  "valid_index g i \<Longrightarrow> subscript (length (vertices g)) i = Some (nat i)"
  by (simp add: valid_index_def vertex_count_def subscript_valid)

lemma valid_index_nat_less: "valid_index g i \<Longrightarrow> nat i < length (vertices g)"
  by (auto simp: valid_index_def vertex_count_def)

lemma vertex_at_valid: "valid_index g i \<Longrightarrow> vertex_at g i = Inr (vertices g ! nat i)"
  by (simp add: vertex_at_def getitem_def valid_index_subscript)

lemma add_edge_valid:
  assumes "length (edges g) = length (vertices g)"
    and "valid_index g (u e)" and "valid_index g (v e)"
  shows "add_edge r g e =
    (Inr (), g\<lparr>edges := append_at (append_at (edges g) (nat (u e)) e) (nat (v e)) (r e)\<rparr>)"
  using assms by (simp add: add_edge_def append_at_def valid_index_subscript Let_def)

lemma length_append_at [simp]: "length (append_at E i e) = length E"
  by (simp add: append_at_def)

lemma nth_append_at:
  "k < length E \<Longrightarrow> append_at E i e ! k = E ! k @ (if k = i then [e] else [])"
  by (simp add: append_at_def nth_list_update)

lemma sum_list_append_at:
  "i < length E \<Longrightarrow> sum_list (map length (append_at E i e)) = Suc (sum_list (map length E))"
  by (simp add: append_at_def sum_list_length_append1)

lemma add_edge_success:
  assumes "length (edges g) = length (vertices g)"
    and "valid_index g (u e)" and "valid_index g (v e)"
  shows "\<exists>g'. add_edge r g e = (Inr (), g') \<and> vertices g' = vertices g \<and>
    length (edges g') = length (edges g) \<and>
    (\<forall>k<length (edges g). edges g' ! k =
       edges g ! k @ (if k = nat (u e) then [e] else []) @ (if k = nat (v e) then [r e] else []))"
  by (simp add: add_edge_valid [OF assms] nth_append_at)

lemma add_edge_Inr:
  assumes "add_edge r g e = (Inr (), g')"
  shows "\<exists>i j. i < length (edges g) \<and> j < length (edges g) \<and>
    g' = g\<lparr>edges := append_at (append_at (edges g) i e) j (r e)\<rparr>"
  using assms
  by (auto simp: add_edge_def Let_def split: option.splits dest: subscript_Some_less)

lemma edge_count_add_edge:
  assumes "add_edge r g e = (Inr (), g')"
  shows "edge_count g' = edge_count g + 2"
proof -
  from add_edge_Inr [OF assms] obtain i j where
    ij: "i < length (edges g)" "j < length (edges g)"
    and g': "g' = g\<lparr>edges := append_at (append_at (edges g) i e) j (r e)\<rparr>"
    by blast
  from ij show ?thesis
    by (simp add: g' edge_count_def sum_list_append_at)
qed


lemma vertex_at_same_vertices: "vertices g' = vertices g \<Longrightarrow> vertex_at g' = vertex_at g"
  by (rule ext) (simp add: vertex_at_def)

lemma neighbors_resolved:
  assumes "length (edges g) = length (vertices g)" and "valid_index g i"
  shows "neighbors_for_index g i = list_map (vertex_at g) (map v (edges g ! nat i))"
  using assms by (simp add: neighbors_for_index_def getitem_def valid_index_subscript)

lemma distance_tuples_same_vertices:
  "vertices g' = vertices g \<Longrightarrow> distance_tuples g' es acc = distance_tuples g es acc"
  by (induction es arbitrary: acc) (simp_all add: vertex_at_def split: sum.splits)

lemma distance_tuples_append:
  "distance_tuples g (es @ fs) acc =
     (case distance_tuples g es acc of Inl x \<Rightarrow> Inl x | Inr r \<Rightarrow> distance_tuples g fs r)"
  by (induction es arbitrary: acc) (auto split: sum.splits)

lemma weighted_neighbors_resolved:
  assumes "length (edges g) = length (vertices g)" and "valid_index g i"
  shows "neighbors_for_index_with_weights g i = distance_tuples g (edges g ! nat i) []"
  using assms
  by (simp add: neighbors_for_index_with_weights_def edges_for_index_def getitem_def
      valid_index_subscript)

lemma neighbors_after_append:
  assumes "length (edges g) = length (vertices g)" and "valid_index g i"
    and "vertices g' = vertices g" and "length (edges g') = length (edges g)"
    and "edges g' ! nat i = edges g ! nat i @ new"
    and "neighbors_for_index g i = Inr ns"
    and "list_map (vertex_at g) (map v new) = Inr ms"
  shows "neighbors_for_index g' i = Inr (ns @ ms)"
proof -
  from assms(1,3,4) have len': "length (edges g') = length (vertices g')" by simp
  from assms(2,3) have vi': "valid_index g' i"
    by (simp add: valid_index_def vertex_count_def)
  from assms(6) have old: "list_map (vertex_at g) (map v (edges g ! nat i)) = Inr ns"
    by (simp add: neighbors_resolved [OF assms(1,2)])
  show ?thesis
    by (simp add: neighbors_resolved [OF len' vi'] assms(5,7) old list_map_append
        vertex_at_same_vertices [OF assms(3)])
qed

lemma weighted_neighbors_after_append:
  assumes "length (edges g) = length (vertices g)" and "valid_index g i"
    and "vertices g' = vertices g" and "length (edges g') = length (edges g)"
    and "edges g' ! nat i = edges g ! nat i @ new"
    and "neighbors_for_index_with_weights g i = Inr ns"
    and "distance_tuples g new ns = Inr ms"
  shows "neighbors_for_index_with_weights g' i = Inr ms"
proof -
  from assms(1,3,4) have len': "length (edges g') = length (vertices g')" by simp
  from assms(2,3) have vi': "valid_index g' i"
    by (simp add: valid_index_def vertex_count_def)
  from assms(6) have old: "distance_tuples g (edges g ! nat i) [] = Inr ns"
    by (simp add: weighted_neighbors_resolved [OF assms(1,2)])
  show ?thesis
    by (simp add: weighted_neighbors_resolved [OF len' vi'] assms(5,7) old
        distance_tuples_append distance_tuples_same_vertices [OF assms(3)])
qed

section \<open>The claims\<close>

subsection \<open>Symmetric insertion\<close>

text \<open>
  Claim C1, as stated, fails on the code. A call of \<^verbatim>\<open>add_edge\<close> with \<open>u\<close> in range
  and \<open>v\<close> out of range raises after it has appended its entry, and the graph it
  leaves still has both of its indices valid. On that graph
  \<^verbatim>\<open>add_edge_by_indices(0, 1)\<close> returns normally, but \<^verbatim>\<open>neighbors_for_index(0)\<close>
  raises IndexError on the older entry, so the vertex at 1 is a member of no neighbour
  list.
\<close>

theorem add_edge_by_indices_dangling_counterexample:
  "snd (add_edge reversed (init [''A'', ''B'']) \<lparr>u = 0, v = 2\<rparr>) =
     \<lparr>vertices = [''A'', ''B''], edges = [[\<lparr>u = 0, v = 2\<rparr>], []]\<rparr> \<and>
   valid_index \<lparr>vertices = [''A'', ''B''], edges = [[\<lparr>u = 0, v = 2\<rparr>], []]\<rparr> 0 \<and>
   valid_index \<lparr>vertices = [''A'', ''B''], edges = [[\<lparr>u = 0, v = 2\<rparr>], []]\<rparr> 1 \<and>
   add_edge_by_indices \<lparr>vertices = [''A'', ''B''], edges = [[\<lparr>u = 0, v = 2\<rparr>], []]\<rparr> 0 1 =
     (Inr (), \<lparr>vertices = [''A'', ''B''],
               edges = [[\<lparr>u = 0, v = 2\<rparr>, \<lparr>u = 0, v = 1\<rparr>], [\<lparr>u = 1, v = 0\<rparr>]]\<rparr>) \<and>
   neighbors_for_index \<lparr>vertices = [''A'', ''B''],
               edges = [[\<lparr>u = 0, v = 2\<rparr>, \<lparr>u = 0, v = 1\<rparr>], [\<lparr>u = 1, v = 0\<rparr>]]\<rparr> 0 =
     Inl IndexError"
  by (simp add: add_edge_by_indices_def add_edge_def init_def subscript_def append_at_def
      reversed_def valid_index_def vertex_count_def neighbors_for_index_def getitem_def
      vertex_at_def)

text \<open>
  Claim C1, amended. On a graph whose adjacency sequence is as long as its vertex
  sequence and valid indices \<open>a\<close> and \<open>b\<close>, \<^verbatim>\<open>add_edge_by_indices(a, b)\<close> returns
  normally, leaves the vertex list and the number of adjacency lists alone, and
  changes the adjacency lists by exactly two appended entries: the edge \<open>a -> b\<close> at
  the end of the list of \<open>a\<close> and the edge \<open>b -> a\<close> at the end of the list of \<open>b\<close>
  (both at the end of the same list, in that order, when \<open>a = b\<close>); every list keeps
  its earlier entries in front, and every other list is the list it was. If
  \<^verbatim>\<open>neighbors_for_index(a)\<close> returned before the call, it returns afterwards, with
  the vertex at \<open>b\<close> appended to its earlier result, so that vertex is a member of
  it; likewise for \<^verbatim>\<open>neighbors_for_index(b)\<close> and the vertex at \<open>a\<close>. The neighbour
  lists hold vertex values, so membership of an index is read as membership of the
  vertex stored there.
\<close>

theorem add_edge_by_indices_symmetric:
  assumes "length (edges g) = length (vertices g)"
    and "valid_index g a" and "valid_index g b"
  shows "\<exists>g' xa xb. add_edge_by_indices g a b = (Inr (), g') \<and>
    vertices g' = vertices g \<and> length (edges g') = length (edges g) \<and>
    (\<forall>k<length (edges g). edges g' ! k =
       edges g ! k @ (if k = nat a then [\<lparr>u = a, v = b\<rparr>] else [])
                   @ (if k = nat b then [\<lparr>u = b, v = a\<rparr>] else [])) \<and>
    edge_count g' = edge_count g + 2 \<and>
    vertex_at g' a = Inr xa \<and> vertex_at g' b = Inr xb \<and>
    (\<forall>ns. neighbors_for_index g a = Inr ns \<longrightarrow>
       (\<exists>ms. neighbors_for_index g' a = Inr ms \<and> xb \<in> set ms \<and>
          ms = ns @ [xb] @ (if a = b then [xa] else []))) \<and>
    (\<forall>ns. neighbors_for_index g b = Inr ns \<longrightarrow>
       (\<exists>ms. neighbors_for_index g' b = Inr ms \<and> xa \<in> set ms \<and>
          ms = ns @ (if a = b then [xb] else []) @ [xa]))"
proof -
  let ?e = "\<lparr>u = a, v = b\<rparr>"
  let ?xa = "vertices g ! nat a" and ?xb = "vertices g ! nat b"
  have ends: "valid_index g (u ?e)" "valid_index g (v ?e)"
    using assms(2,3) by simp_all
  from add_edge_success [OF assms(1) ends, of reversed] obtain g' where
    run: "add_edge reversed g ?e = (Inr (), g')"
    and vs: "vertices g' = vertices g"
    and es: "length (edges g') = length (edges g)"
    and nth: "\<forall>k<length (edges g). edges g' ! k =
       edges g ! k @ (if k = nat a then [?e] else []) @ (if k = nat b then [reversed ?e] else [])"
    by auto
  from nth have nth': "\<forall>k<length (edges g). edges g' ! k =
       edges g ! k @ (if k = nat a then [\<lparr>u = a, v = b\<rparr>] else [])
                   @ (if k = nat b then [\<lparr>u = b, v = a\<rparr>] else [])"
    by (simp add: reversed_def)
  from assms have lt: "nat a < length (edges g)" "nat b < length (edges g)"
    by (simp_all add: valid_index_nat_less)
  from assms(2,3) have nn: "0 \<le> a" "0 \<le> b" by (simp_all add: valid_index_def)
  then have same: "nat a = nat b \<longleftrightarrow> a = b" by auto
  have cnt: "edge_count g' = edge_count g + 2"
    by (rule edge_count_add_edge [OF run])
  have ata: "vertex_at g a = Inr ?xa" and atb: "vertex_at g b = Inr ?xb"
    using assms(2,3) by (simp_all add: vertex_at_valid)
  have ata': "vertex_at g' a = Inr ?xa" and atb': "vertex_at g' b = Inr ?xb"
    using ata atb by (simp_all add: vertex_at_same_vertices [OF vs])
  from nth' lt same have ea: "edges g' ! nat a =
      edges g ! nat a @ ([\<lparr>u = a, v = b\<rparr>] @ (if a = b then [\<lparr>u = b, v = a\<rparr>] else []))"
    by simp
  from nth' lt same have eb: "edges g' ! nat b =
      edges g ! nat b @ ((if a = b then [\<lparr>u = a, v = b\<rparr>] else []) @ [\<lparr>u = b, v = a\<rparr>])"
    by auto
  have ma: "list_map (vertex_at g)
      (map v ([\<lparr>u = a, v = b\<rparr>] @ (if a = b then [\<lparr>u = b, v = a\<rparr>] else []))) =
      Inr ([?xb] @ (if a = b then [?xa] else []))"
    by (simp add: ata atb)
  have mb: "list_map (vertex_at g)
      (map v ((if a = b then [\<lparr>u = a, v = b\<rparr>] else []) @ [\<lparr>u = b, v = a\<rparr>])) =
      Inr ((if a = b then [?xb] else []) @ [?xa])"
    by (simp add: ata atb)
  have A: "\<forall>ns. neighbors_for_index g a = Inr ns \<longrightarrow>
       (\<exists>ms. neighbors_for_index g' a = Inr ms \<and> ?xb \<in> set ms \<and>
          ms = ns @ [?xb] @ (if a = b then [?xa] else []))"
  proof (intro allI impI)
    fix ns assume "neighbors_for_index g a = Inr ns"
    from neighbors_after_append [OF assms(1,2) vs es ea this ma]
    show "\<exists>ms. neighbors_for_index g' a = Inr ms \<and> ?xb \<in> set ms \<and>
          ms = ns @ [?xb] @ (if a = b then [?xa] else [])"
      by simp
  qed
  have B: "\<forall>ns. neighbors_for_index g b = Inr ns \<longrightarrow>
       (\<exists>ms. neighbors_for_index g' b = Inr ms \<and> ?xa \<in> set ms \<and>
          ms = ns @ (if a = b then [?xb] else []) @ [?xa])"
  proof (intro allI impI)
    fix ns assume "neighbors_for_index g b = Inr ns"
    from neighbors_after_append [OF assms(1,3) vs es eb this mb]
    show "\<exists>ms. neighbors_for_index g' b = Inr ms \<and> ?xa \<in> set ms \<and>
          ms = ns @ (if a = b then [?xb] else []) @ [?xa]"
      by simp
  qed
  from run vs es nth' cnt ata' atb' A B show ?thesis
    unfolding add_edge_by_indices_def by blast
qed

theorem add_edge_by_indices_symmetric_witness:
  "length (edges \<lparr>vertices = [''A'', ''B'', ''C''],
       edges = [[\<lparr>u = 0, v = - 1\<rparr>], [], [\<lparr>u = - 1, v = 0\<rparr>]]\<rparr>) =
     length (vertices \<lparr>vertices = [''A'', ''B'', ''C''],
       edges = [[\<lparr>u = 0, v = - 1\<rparr>], [], [\<lparr>u = - 1, v = 0\<rparr>]]\<rparr>) \<and>
   valid_index \<lparr>vertices = [''A'', ''B'', ''C''],
       edges = [[\<lparr>u = 0, v = - 1\<rparr>], [], [\<lparr>u = - 1, v = 0\<rparr>]]\<rparr> 0 \<and>
   valid_index \<lparr>vertices = [''A'', ''B'', ''C''],
       edges = [[\<lparr>u = 0, v = - 1\<rparr>], [], [\<lparr>u = - 1, v = 0\<rparr>]]\<rparr> 1 \<and>
   neighbors_for_index \<lparr>vertices = [''A'', ''B'', ''C''],
       edges = [[\<lparr>u = 0, v = - 1\<rparr>], [], [\<lparr>u = - 1, v = 0\<rparr>]]\<rparr> 0 = Inr [''C''] \<and>
   neighbors_for_index \<lparr>vertices = [''A'', ''B'', ''C''],
       edges = [[\<lparr>u = 0, v = - 1\<rparr>], [], [\<lparr>u = - 1, v = 0\<rparr>]]\<rparr> 1 = Inr [] \<and>
   add_edge_by_indices \<lparr>vertices = [''A'', ''B'', ''C''],
       edges = [[\<lparr>u = 0, v = - 1\<rparr>], [], [\<lparr>u = - 1, v = 0\<rparr>]]\<rparr> 0 1 =
     (Inr (), \<lparr>vertices = [''A'', ''B'', ''C''],
        edges = [[\<lparr>u = 0, v = - 1\<rparr>, \<lparr>u = 0, v = 1\<rparr>], [\<lparr>u = 1, v = 0\<rparr>],
                 [\<lparr>u = - 1, v = 0\<rparr>]]\<rparr>) \<and>
   neighbors_for_index \<lparr>vertices = [''A'', ''B'', ''C''],
        edges = [[\<lparr>u = 0, v = - 1\<rparr>, \<lparr>u = 0, v = 1\<rparr>], [\<lparr>u = 1, v = 0\<rparr>],
                 [\<lparr>u = - 1, v = 0\<rparr>]]\<rparr> 0 = Inr [''C'', ''B''] \<and>
   neighbors_for_index \<lparr>vertices = [''A'', ''B'', ''C''],
        edges = [[\<lparr>u = 0, v = - 1\<rparr>, \<lparr>u = 0, v = 1\<rparr>], [\<lparr>u = 1, v = 0\<rparr>],
                 [\<lparr>u = - 1, v = 0\<rparr>]]\<rparr> 1 = Inr [''A'']"
proof -
  let ?g = "\<lparr>vertices = [''A'', ''B'', ''C''],
       edges = [[\<lparr>u = 0, v = - 1\<rparr>], [], [\<lparr>u = - 1, v = 0\<rparr>]]\<rparr>"
  let ?g' = "\<lparr>vertices = [''A'', ''B'', ''C''],
        edges = [[\<lparr>u = 0, v = - 1\<rparr>, \<lparr>u = 0, v = 1\<rparr>], [\<lparr>u = 1, v = 0\<rparr>],
                 [\<lparr>u = - 1, v = 0\<rparr>]]\<rparr>"
  have len: "length (edges ?g) = length (vertices ?g)" by simp
  have v0: "valid_index ?g 0" and v1: "valid_index ?g 1"
    by (simp_all add: valid_index_def vertex_count_def)
  have n0: "neighbors_for_index ?g 0 = Inr [''C'']" and n1: "neighbors_for_index ?g 1 = Inr []"
    by (simp_all add: neighbors_for_index_def getitem_def subscript_def vertex_at_def)
  have run: "add_edge_by_indices ?g 0 1 = (Inr (), ?g')"
    by (simp add: add_edge_by_indices_def add_edge_def subscript_def append_at_def reversed_def)
  from add_edge_by_indices_symmetric [OF len v0 v1] obtain g' xa xb where
    r: "add_edge_by_indices ?g 0 1 = (Inr (), g')"
    and xa: "vertex_at g' 0 = Inr xa" and xb: "vertex_at g' 1 = Inr xb"
    and A: "\<forall>ns. neighbors_for_index ?g 0 = Inr ns \<longrightarrow>
       (\<exists>ms. neighbors_for_index g' 0 = Inr ms \<and> xb \<in> set ms \<and>
          ms = ns @ [xb] @ (if (0::int) = 1 then [xa] else []))"
    and B: "\<forall>ns. neighbors_for_index ?g 1 = Inr ns \<longrightarrow>
       (\<exists>ms. neighbors_for_index g' 1 = Inr ms \<and> xa \<in> set ms \<and>
          ms = ns @ (if (0::int) = 1 then [xb] else []) @ [xa])"
    by blast
  from r run have g': "g' = ?g'" by simp
  from xa xb have x: "xa = ''A''" "xb = ''B''"
    by (simp_all add: g' vertex_at_def getitem_def subscript_def)
  from A n0 have "neighbors_for_index ?g' 0 = Inr [''C'', ''B'']" by (simp add: g' x)
  moreover from B n1 have "neighbors_for_index ?g' 1 = Inr [''A'']" by (simp add: g' x)
  ultimately show ?thesis using len v0 v1 n0 n1 run by simp
qed

subsection \<open>Counting edges\<close>

text \<open>
  Claim C5. \<^verbatim>\<open>edge_count\<close> is the sum of the lengths of all adjacency lists: it is
  zero on a freshly constructed graph, and one \<^verbatim>\<open>add_edge\<close> call that returns
  normally raises it by exactly two, so that every undirected edge is counted twice.
\<close>

theorem edge_count_double:
  "edge_count g = int (\<Sum>es\<leftarrow>edges g. length es) \<and>
   edge_count (init vs :: ('v, 'a edge_scheme) graph) = 0 \<and>
   (add_edge r g e = (Inr (), g') \<longrightarrow> edge_count g' = edge_count g + 2)"
proof -
  have "edge_count (init vs :: ('v, 'a edge_scheme) graph) = 0"
    by (simp add: edge_count_def init_def comp_def)
  then show ?thesis
    by (simp add: edge_count_def [of g] edge_count_add_edge)
qed

theorem edge_count_double_witness:
  "add_edge reversed (init [''A'', ''B'', ''C'']) \<lparr>u = 0, v = 1\<rparr> =
     (Inr (), \<lparr>vertices = [''A'', ''B'', ''C''],
               edges = [[\<lparr>u = 0, v = 1\<rparr>], [\<lparr>u = 1, v = 0\<rparr>], []]\<rparr>) \<and>
   edge_count (init [''A'', ''B'', ''C''] :: (string, edge) graph) = 0 \<and>
   edge_count \<lparr>vertices = [''A'', ''B'', ''C''],
               edges = [[\<lparr>u = 0, v = 1\<rparr>], [\<lparr>u = 1, v = 0\<rparr>], []]\<rparr> = 2"
proof -
  let ?g = "init [''A'', ''B'', ''C''] :: (string, edge) graph"
  let ?g' = "\<lparr>vertices = [''A'', ''B'', ''C''],
               edges = [[\<lparr>u = 0, v = 1\<rparr>], [\<lparr>u = 1, v = 0\<rparr>], []]\<rparr>"
  have run: "add_edge reversed ?g \<lparr>u = 0, v = 1\<rparr> = (Inr (), ?g')"
    by (simp add: add_edge_def init_def subscript_def append_at_def reversed_def)
  from edge_count_double [of ?g "[''A'', ''B'', ''C'']" reversed "\<lparr>u = 0, v = 1\<rparr>" ?g'] run
  have "edge_count ?g = 0" and "edge_count ?g' = edge_count ?g + 2"
    by blast+
  with run show ?thesis by simp
qed

subsection \<open>Indices out of range\<close>

text \<open>
  Claim C2, as stated, fails on the code. The subscripts of \<^verbatim>\<open>add_edge\<close> are Python
  subscripts, so an endpoint in \<open>[- vertexCount, 0)\<close> is outside \<open>[0, vertexCount)\<close>
  and raises nothing; and the first append is made before the second subscript is
  evaluated, so with \<open>u\<close> in range and \<open>v\<close> out of range IndexError is raised by a
  graph that has already gained an entry.
\<close>

theorem add_edge_failure_counterexample:
  "add_edge reversed (init [''A'', ''B'']) \<lparr>u = 0, v = 2\<rparr> =
     (Inl IndexError, \<lparr>vertices = [''A'', ''B''], edges = [[\<lparr>u = 0, v = 2\<rparr>], []]\<rparr>) \<and>
   snd (add_edge reversed (init [''A'', ''B'']) \<lparr>u = 0, v = 2\<rparr>) \<noteq> init [''A'', ''B''] \<and>
   \<not> valid_index (init [''A'', ''B''] :: (string, edge) graph) (- 1) \<and>
   add_edge reversed (init [''A'', ''B'']) \<lparr>u = - 1, v = 0\<rparr> =
     (Inr (), \<lparr>vertices = [''A'', ''B''], edges = [[\<lparr>u = 0, v = - 1\<rparr>], [\<lparr>u = - 1, v = 0\<rparr>]]\<rparr>)"
  by (simp add: add_edge_def init_def subscript_def append_at_def reversed_def
      valid_index_def vertex_count_def)

text \<open>
  Claim C2, amended. On a graph whose adjacency sequence is as long as its vertex
  sequence, \<^verbatim>\<open>add_edge\<close> raises IndexError for every edge whose \<open>u\<close> or \<open>v\<close> is
  outside \<open>[- vertexCount, vertexCount)\<close>; when \<open>u\<close> is outside that range the failure
  comes before any mutation and the graph is left exactly as it was.
\<close>

theorem add_edge_out_of_range:
  assumes "length (edges g) = length (vertices g)"
  shows "(u e < - vertex_count g \<or> vertex_count g \<le> u e \<longrightarrow>
            add_edge r g e = (Inl IndexError, g)) \<and>
         (v e < - vertex_count g \<or> vertex_count g \<le> v e \<longrightarrow>
            fst (add_edge r g e) = Inl IndexError)"
  using assms
  by (auto simp: add_edge_def vertex_count_def subscript_def Let_def split: option.splits)

theorem add_edge_out_of_range_witness:
  "length (edges (init [''A'', ''B''] :: (string, edge) graph)) =
     length (vertices (init [''A'', ''B''] :: (string, edge) graph)) \<and>
   add_edge reversed (init [''A'', ''B'']) \<lparr>u = 2, v = 0\<rparr> = (Inl IndexError, init [''A'', ''B'']) \<and>
   add_edge reversed (init [''A'', ''B'']) \<lparr>u = - 3, v = 0\<rparr> = (Inl IndexError, init [''A'', ''B'']) \<and>
   fst (add_edge reversed (init [''A'', ''B'']) \<lparr>u = 0, v = 2\<rparr>) = Inl IndexError"
proof -
  let ?g = "init [''A'', ''B''] :: (string, edge) graph"
  have len: "length (edges ?g) = length (vertices ?g)" by (simp add: init_def)
  have vc: "vertex_count ?g = 2" by (simp add: vertex_count_def init_def)
  from add_edge_out_of_range [OF len, of "\<lparr>u = 2, v = 0\<rparr>" reversed]
    add_edge_out_of_range [OF len, of "\<lparr>u = - 3, v = 0\<rparr>" reversed]
    add_edge_out_of_range [OF len, of "\<lparr>u = 0, v = 2\<rparr>" reversed]
    len vc
  show ?thesis by simp
qed

text \<open>
  Claim C3, as stated, fails on the code: \<^verbatim>\<open>vertex_at\<close> is a bare Python subscript,
  and a negative index down to \<open>- vertexCount\<close> reads from the end of the vertex list
  instead of failing.
\<close>

theorem vertex_at_negative_counterexample:
  "\<not> valid_index (init [''A'', ''B''] :: (string, edge) graph) (- 1) \<and>
   vertex_at (init [''A'', ''B''] :: (string, edge) graph) (- 1) = Inr ''B'' \<and>
   vertex_at (init [''A'', ''B''] :: (string, edge) graph) (- 1) \<noteq> Inl IndexError"
  by (simp add: valid_index_def vertex_count_def init_def vertex_at_def getitem_def subscript_def)

text \<open>
  Claim C3, amended. \<^verbatim>\<open>vertex_at(index)\<close> returns the vertex stored at position
  \<open>index\<close> when \<open>0 \<le> index < vertexCount\<close>, the vertex stored at position
  \<open>vertexCount + index\<close> when \<open>- vertexCount \<le> index < 0\<close>, and fails with IndexError
  for every index \<open>\<ge> vertexCount\<close> and every index \<open>< - vertexCount\<close>.
\<close>

theorem vertex_at_cases:
  "(0 \<le> i \<and> i < vertex_count g \<longrightarrow> vertex_at g i = Inr (vertices g ! nat i)) \<and>
   (- vertex_count g \<le> i \<and> i < 0 \<longrightarrow>
      vertex_at g i = Inr (vertices g ! nat (vertex_count g + i))) \<and>
   (i < - vertex_count g \<or> vertex_count g \<le> i \<longrightarrow> vertex_at g i = Inl IndexError)"
  by (auto simp: vertex_at_def getitem_def subscript_def vertex_count_def)

theorem vertex_at_cases_witness:
  "vertex_at (init [''A'', ''B'', ''C''] :: (string, edge) graph) 1 = Inr ''B'' \<and>
   vertex_at (init [''A'', ''B'', ''C''] :: (string, edge) graph) (- 1) = Inr ''C'' \<and>
   vertex_at (init [''A'', ''B'', ''C''] :: (string, edge) graph) 3 = Inl IndexError \<and>
   vertex_at (init [''A'', ''B'', ''C''] :: (string, edge) graph) (- 4) = Inl IndexError"
proof -
  let ?g = "init [''A'', ''B'', ''C''] :: (string, edge) graph"
  have vc: "vertex_count ?g = 3" and vs: "vertices ?g = [''A'', ''B'', ''C'']"
    by (simp_all add: vertex_count_def init_def)
  from vertex_at_cases [of 1 ?g] vertex_at_cases [of "- 1" ?g]
    vertex_at_cases [of 3 ?g] vertex_at_cases [of "- 4" ?g] vc vs
  show ?thesis by simp
qed

subsection \<open>Lookup by value\<close>

text \<open>
  Claim C6. When the vertex values are pairwise distinct, \<^verbatim>\<open>index_of(vertex_at(i))\<close>
  is \<open>i\<close> for every valid index \<open>i\<close>. In any graph, with or without duplicates,
  \<^verbatim>\<open>index_of\<close> of a value that is present returns the lowest index at which the value
  is stored.
\<close>

theorem index_of_vertex_at:
  "(distinct (vertices g) \<and> valid_index g i \<longrightarrow>
      (\<exists>x. vertex_at g i = Inr x \<and> index_of g x = Inr i)) \<and>
   (x \<in> set (vertices g) \<longrightarrow>
      (\<exists>k. index_of g x = Inr (int k) \<and> k < length (vertices g) \<and>
           vertices g ! k = x \<and> (\<forall>j<k. vertices g ! j \<noteq> x)))"
proof (intro conjI impI)
  assume a: "distinct (vertices g) \<and> valid_index g i"
  then have lt: "nat i < length (vertices g)" and nn: "0 \<le> i"
    by (simp_all add: valid_index_nat_less valid_index_def)
  from a lt have "index (vertices g) (vertices g ! nat i) = Inr (nat i)"
    by (simp add: index_nth_distinct)
  with a nn show "\<exists>x. vertex_at g i = Inr x \<and> index_of g x = Inr i"
    by (simp add: vertex_at_valid index_of_def)
next
  assume "x \<in> set (vertices g)"
  then obtain k where k: "index (vertices g) x = Inr k"
    using index_member by fastforce
  from index_Inr_first [OF k] k
  show "\<exists>k. index_of g x = Inr (int k) \<and> k < length (vertices g) \<and>
           vertices g ! k = x \<and> (\<forall>j<k. vertices g ! j \<noteq> x)"
    by (auto simp: index_of_def)
qed

theorem index_of_vertex_at_witness:
  "distinct (vertices (init [''A'', ''B'', ''C''] :: (string, edge) graph)) \<and>
   valid_index (init [''A'', ''B'', ''C''] :: (string, edge) graph) 2 \<and>
   vertex_at (init [''A'', ''B'', ''C''] :: (string, edge) graph) 2 = Inr ''C'' \<and>
   index_of (init [''A'', ''B'', ''C''] :: (string, edge) graph) ''C'' = Inr 2 \<and>
   ''B'' \<in> set (vertices (init [''A'', ''B'', ''A'', ''B''] :: (string, edge) graph)) \<and>
   index_of (init [''A'', ''B'', ''A'', ''B''] :: (string, edge) graph) ''B'' = Inr 1"
proof -
  let ?g = "init [''A'', ''B'', ''C''] :: (string, edge) graph"
  let ?h = "init [''A'', ''B'', ''A'', ''B''] :: (string, edge) graph"
  have d: "distinct (vertices ?g) \<and> valid_index ?g 2"
    by (simp add: init_def valid_index_def vertex_count_def)
  have at: "vertex_at ?g 2 = Inr ''C''"
    by (simp add: init_def vertex_at_def getitem_def subscript_def)
  have m: "''B'' \<in> set (vertices ?h)" by (simp add: init_def)
  have 1: "index_of ?g ''C'' = Inr 2" and 2: "index_of ?h ''B'' = Inr 1"
    by (simp_all add: index_of_def init_def)
  from index_of_vertex_at [of ?g 2 "''B''"] index_of_vertex_at [of ?h 0 "''B''"] d at m 1 2
  show ?thesis by simp
qed

text \<open>
  Claim C7. \<^verbatim>\<open>index_of(x)\<close> raises ValueError (the NotFound of the specification)
  exactly when \<open>x\<close> is absent from the vertex sequence, and
  \<^verbatim>\<open>add_edge_by_vertices(first, second)\<close> with either value absent raises that same
  exception and leaves the graph as it was.
\<close>

theorem index_of_not_found:
  "(index_of g x = Inl ValueError \<longleftrightarrow> x \<notin> set (vertices g)) \<and>
   (first \<notin> set (vertices g) \<or> second \<notin> set (vertices g) \<longrightarrow>
      add_edge_by_vertices g first second = (Inl ValueError, g))"
proof (intro conjI impI)
  show "index_of g x = Inl ValueError \<longleftrightarrow> x \<notin> set (vertices g)"
    by (auto simp: index_of_def index_Inl_iff dest: index_Inr_member split: sum.splits)
next
  assume "first \<notin> set (vertices g) \<or> second \<notin> set (vertices g)"
  then have "index (vertices g) first = Inl ValueError \<or>
      index (vertices g) second = Inl ValueError"
    by (simp add: index_Inl_iff)
  then show "add_edge_by_vertices g first second = (Inl ValueError, g)"
    by (auto simp: add_edge_by_vertices_def index_Inl_iff dest: index_Inr_member
        split: sum.splits)
qed

theorem index_of_not_found_witness:
  "''D'' \<notin> set (vertices (init [''A'', ''B'', ''C''] :: (string, edge) graph)) \<and>
   index_of (init [''A'', ''B'', ''C''] :: (string, edge) graph) ''D'' = Inl ValueError \<and>
   add_edge_by_vertices (init [''A'', ''B'', ''C'']) ''A'' ''D'' =
     (Inl ValueError, init [''A'', ''B'', ''C'']) \<and>
   add_edge_by_vertices (init [''A'', ''B'', ''C'']) ''D'' ''A'' =
     (Inl ValueError, init [''A'', ''B'', ''C''])"
proof -
  let ?g = "init [''A'', ''B'', ''C''] :: (string, edge) graph"
  have m: "''D'' \<notin> set (vertices ?g)" by (simp add: init_def)
  from index_of_not_found [of ?g "''D''" "''A''" "''D''"]
    index_of_not_found [of ?g "''D''" "''D''" "''A''"] m
  show ?thesis by simp
qed

subsection \<open>Adding a vertex\<close>

text \<open>
  Claim C8. \<^verbatim>\<open>add_vertex(x)\<close> always returns normally. It appends \<open>x\<close> to the vertex
  sequence and an empty adjacency list to the adjacency sequence, so two sequences of
  equal length stay of equal length; \<^verbatim>\<open>vertex_count\<close> grows by exactly one; and the
  value returned is the new length minus one, the index at which \<open>x\<close> is now stored.
\<close>

theorem add_vertex_appends:
  "\<exists>g'. add_vertex g x = (Inr (vertex_count g' - 1), g') \<and>
     vertices g' = vertices g @ [x] \<and> edges g' = edges g @ [[]] \<and>
     vertex_count g' = vertex_count g + 1 \<and>
     vertex_count g' - 1 = int (length (vertices g)) \<and>
     vertex_at g' (vertex_count g' - 1) = Inr x \<and>
     (length (edges g) = length (vertices g) \<longrightarrow> length (edges g') = length (vertices g'))"
  by (simp add: add_vertex_def Let_def vertex_count_def vertex_at_def getitem_def subscript_def)

theorem add_vertex_appends_witness:
  "add_vertex (init [''A'', ''B''] :: (string, edge) graph) ''C'' =
     (Inr 2, \<lparr>vertices = [''A'', ''B'', ''C''], edges = [[], [], []]\<rparr>) \<and>
   length (edges (init [''A'', ''B''] :: (string, edge) graph)) =
     length (vertices (init [''A'', ''B''] :: (string, edge) graph))"
proof -
  let ?g = "init [''A'', ''B''] :: (string, edge) graph"
  from add_vertex_appends [of ?g "''C''"] obtain g' where
    g': "add_vertex ?g ''C'' = (Inr (vertex_count g' - 1), g')"
      "vertices g' = vertices ?g @ [''C'']" "edges g' = edges ?g @ [[]]"
    by blast
  from g'(2,3) have "g' = \<lparr>vertices = [''A'', ''B'', ''C''], edges = [[], [], []]\<rparr>"
    by (cases g') (simp add: init_def)
  with g'(1) show ?thesis by (simp add: init_def vertex_count_def)
qed

subsection \<open>Neighbour queries\<close>



text \<open>
  Claim C10, as stated, fails on the code. On the graph left by a call of
  \<^verbatim>\<open>add_edge\<close> that raised on its second subscript, index 0 is valid and the
  self-loop \<^verbatim>\<open>add_edge_by_indices(0, 0)\<close> returns normally, but
  \<^verbatim>\<open>neighbors_for_index(0)\<close> raises IndexError before the call and after it: it gains
  no occurrence of the vertex at 0.
\<close>

theorem self_loop_dangling_counterexample:
  "snd (add_edge reversed (init [''A'', ''B'']) \<lparr>u = 0, v = 2\<rparr>) =
     \<lparr>vertices = [''A'', ''B''], edges = [[\<lparr>u = 0, v = 2\<rparr>], []]\<rparr> \<and>
   valid_index \<lparr>vertices = [''A'', ''B''], edges = [[\<lparr>u = 0, v = 2\<rparr>], []]\<rparr> 0 \<and>
   add_edge_by_indices \<lparr>vertices = [''A'', ''B''], edges = [[\<lparr>u = 0, v = 2\<rparr>], []]\<rparr> 0 0 =
     (Inr (), \<lparr>vertices = [''A'', ''B''],
               edges = [[\<lparr>u = 0, v = 2\<rparr>, \<lparr>u = 0, v = 0\<rparr>, \<lparr>u = 0, v = 0\<rparr>], []]\<rparr>) \<and>
   neighbors_for_index \<lparr>vertices = [''A'', ''B''], edges = [[\<lparr>u = 0, v = 2\<rparr>], []]\<rparr> 0 =
     Inl IndexError \<and>
   neighbors_for_index \<lparr>vertices = [''A'', ''B''],
               edges = [[\<lparr>u = 0, v = 2\<rparr>, \<lparr>u = 0, v = 0\<rparr>, \<lparr>u = 0, v = 0\<rparr>], []]\<rparr> 0 =
     Inl IndexError"
  by (simp add: add_edge_by_indices_def add_edge_def init_def subscript_def append_at_def
      reversed_def valid_index_def vertex_count_def neighbors_for_index_def getitem_def
      vertex_at_def)

text \<open>
  Claim C10, amended. On a graph whose adjacency sequence is as long as its vertex
  sequence and a valid index \<open>a\<close>, the self-loop call \<^verbatim>\<open>add_edge_by_indices(a, a)\<close>
  returns normally and appends two entries to the adjacency list of \<open>a\<close>, the edge
  \<open>a -> a\<close> and its reversal, which is the same edge; every other list is the list it
  was and \<^verbatim>\<open>edge_count\<close> grows by two. If \<^verbatim>\<open>neighbors_for_index(a)\<close> returned before
  the call, it returns afterwards its earlier result followed by two occurrences of
  the vertex at \<open>a\<close>.
\<close>

theorem self_loop_twice:
  assumes "length (edges g) = length (vertices g)" and "valid_index g a"
  shows "\<exists>g' x. add_edge_by_indices g a a = (Inr (), g') \<and>
    vertices g' = vertices g \<and> length (edges g') = length (edges g) \<and>
    edges g' ! nat a = edges g ! nat a @ [\<lparr>u = a, v = a\<rparr>, reversed \<lparr>u = a, v = a\<rparr>] \<and>
    reversed \<lparr>u = a, v = a\<rparr> = \<lparr>u = a, v = a\<rparr> \<and>
    (\<forall>k<length (edges g). k \<noteq> nat a \<longrightarrow> edges g' ! k = edges g ! k) \<and>
    edge_count g' = edge_count g + 2 \<and>
    vertex_at g a = Inr x \<and>
    (\<forall>ns. neighbors_for_index g a = Inr ns \<longrightarrow> neighbors_for_index g' a = Inr (ns @ [x, x]))"
proof -
  let ?e = "\<lparr>u = a, v = a\<rparr>"
  let ?x = "vertices g ! nat a"
  have ends: "valid_index g (u ?e)" "valid_index g (v ?e)"
    using assms(2) by simp_all
  from add_edge_success [OF assms(1) ends, of reversed] obtain g' where
    run: "add_edge reversed g ?e = (Inr (), g')"
    and vs: "vertices g' = vertices g"
    and es: "length (edges g') = length (edges g)"
    and nth: "\<forall>k<length (edges g). edges g' ! k =
       edges g ! k @ (if k = nat a then [?e] else []) @ (if k = nat a then [reversed ?e] else [])"
    by auto
  from assms have lt: "nat a < length (edges g)"
    by (simp add: valid_index_nat_less)
  with nth have ea: "edges g' ! nat a = edges g ! nat a @ [?e, reversed ?e]" by simp
  have rv: "reversed ?e = ?e" by (simp add: reversed_def)
  from nth have other: "\<forall>k<length (edges g). k \<noteq> nat a \<longrightarrow> edges g' ! k = edges g ! k"
    by simp
  have cnt: "edge_count g' = edge_count g + 2"
    by (rule edge_count_add_edge [OF run])
  have at: "vertex_at g a = Inr ?x"
    using assms(2) by (simp add: vertex_at_valid)
  have m: "list_map (vertex_at g) (map v [?e, reversed ?e]) = Inr [?x, ?x]"
    by (simp add: at reversed_def)
  have N: "\<forall>ns. neighbors_for_index g a = Inr ns \<longrightarrow>
      neighbors_for_index g' a = Inr (ns @ [?x, ?x])"
  proof (intro allI impI)
    fix ns assume "neighbors_for_index g a = Inr ns"
    from neighbors_after_append [OF assms(1,2) vs es ea this m]
    show "neighbors_for_index g' a = Inr (ns @ [?x, ?x])" .
  qed
  from run vs es ea rv other cnt at N show ?thesis
    unfolding add_edge_by_indices_def by blast
qed

theorem self_loop_twice_witness:
  "length (edges \<lparr>vertices = [''A'', ''B''], edges = [[\<lparr>u = - 2, v = 1\<rparr>], [\<lparr>u = 1, v = - 2\<rparr>]]\<rparr>) =
     length (vertices \<lparr>vertices = [''A'', ''B''], edges = [[\<lparr>u = - 2, v = 1\<rparr>], [\<lparr>u = 1, v = - 2\<rparr>]]\<rparr>) \<and>
   valid_index \<lparr>vertices = [''A'', ''B''], edges = [[\<lparr>u = - 2, v = 1\<rparr>], [\<lparr>u = 1, v = - 2\<rparr>]]\<rparr> 1 \<and>
   neighbors_for_index \<lparr>vertices = [''A'', ''B''], edges = [[\<lparr>u = - 2, v = 1\<rparr>], [\<lparr>u = 1, v = - 2\<rparr>]]\<rparr> 1 =
     Inr [''A''] \<and>
   add_edge_by_indices \<lparr>vertices = [''A'', ''B''], edges = [[\<lparr>u = - 2, v = 1\<rparr>], [\<lparr>u = 1, v = - 2\<rparr>]]\<rparr> 1 1 =
     (Inr (), \<lparr>vertices = [''A'', ''B''],
        edges = [[\<lparr>u = - 2, v = 1\<rparr>], [\<lparr>u = 1, v = - 2\<rparr>, \<lparr>u = 1, v = 1\<rparr>, \<lparr>u = 1, v = 1\<rparr>]]\<rparr>) \<and>
   neighbors_for_index \<lparr>vertices = [''A'', ''B''],
        edges = [[\<lparr>u = - 2, v = 1\<rparr>], [\<lparr>u = 1, v = - 2\<rparr>, \<lparr>u = 1, v = 1\<rparr>, \<lparr>u = 1, v = 1\<rparr>]]\<rparr> 1 =
     Inr [''A'', ''B'', ''B'']"
proof -
  let ?g = "\<lparr>vertices = [''A'', ''B''], edges = [[\<lparr>u = - 2, v = 1\<rparr>], [\<lparr>u = 1, v = - 2\<rparr>]]\<rparr>"
  let ?g' = "\<lparr>vertices = [''A'', ''B''],
        edges = [[\<lparr>u = - 2, v = 1\<rparr>], [\<lparr>u = 1, v = - 2\<rparr>, \<lparr>u = 1, v = 1\<rparr>, \<lparr>u = 1, v = 1\<rparr>]]\<rparr>"
  have len: "length (edges ?g) = length (vertices ?g)" by simp
  have v1: "valid_index ?g 1"
    by (simp add: valid_index_def vertex_count_def)
  have n1: "neighbors_for_index ?g 1 = Inr [''A'']"
    by (simp add: neighbors_for_index_def getitem_def subscript_def vertex_at_def)
  have at: "vertex_at ?g 1 = Inr ''B''"
    by (simp add: vertex_at_def getitem_def subscript_def)
  have run: "add_edge_by_indices ?g 1 1 = (Inr (), ?g')"
    by (simp add: add_edge_by_indices_def add_edge_def subscript_def append_at_def reversed_def)
  from self_loop_twice [OF len v1] obtain g' x where
    r: "add_edge_by_indices ?g 1 1 = (Inr (), g')"
    and x: "vertex_at ?g 1 = Inr x"
    and N: "\<forall>ns. neighbors_for_index ?g 1 = Inr ns \<longrightarrow>
      neighbors_for_index g' 1 = Inr (ns @ [x, x])"
    by blast
  from r run have g': "g' = ?g'" by simp
  from x at have "x = ''B''" by simp
  with N n1 have "neighbors_for_index ?g' 1 = Inr [''A'', ''B'', ''B'']" by (simp add: g')
  with len v1 n1 run show ?thesis by simp
qed

subsection \<open>Weighted edges\<close>

text \<open>
  Claim C4, as stated, fails on the code. On the weighted graph left by a call of
  \<^verbatim>\<open>add_edge\<close> that raised on its second subscript, indices 0 and 1 are valid and
  \<^verbatim>\<open>add_edge_by_indices(0, 1, 5)\<close> returns normally, but
  \<^verbatim>\<open>neighbors_for_index_with_weights(0)\<close> raises IndexError on the older entry and
  contains no pair.
\<close>

theorem weighted_dangling_counterexample:
  "snd (add_edge weighted_reversed (init [''X'', ''Y'']) \<lparr>u = 0, v = 2, weight = 7 :: int\<rparr>) =
     \<lparr>vertices = [''X'', ''Y''], edges = [[\<lparr>u = 0, v = 2, weight = 7\<rparr>], []]\<rparr> \<and>
   valid_index \<lparr>vertices = [''X'', ''Y''],
      edges = [[\<lparr>u = 0, v = 2, weight = 7 :: int\<rparr>], []]\<rparr> 0 \<and>
   valid_index \<lparr>vertices = [''X'', ''Y''],
      edges = [[\<lparr>u = 0, v = 2, weight = 7 :: int\<rparr>], []]\<rparr> 1 \<and>
   weighted_add_edge_by_indices \<lparr>vertices = [''X'', ''Y''],
      edges = [[\<lparr>u = 0, v = 2, weight = 7 :: int\<rparr>], []]\<rparr> 0 1 5 =
     (Inr (), \<lparr>vertices = [''X'', ''Y''],
        edges = [[\<lparr>u = 0, v = 2, weight = 7\<rparr>, \<lparr>u = 0, v = 1, weight = 5\<rparr>],
                 [\<lparr>u = 1, v = 0, weight = 5\<rparr>]]\<rparr>) \<and>
   neighbors_for_index_with_weights \<lparr>vertices = [''X'', ''Y''],
        edges = [[\<lparr>u = 0, v = 2, weight = 7 :: int\<rparr>, \<lparr>u = 0, v = 1, weight = 5\<rparr>],
                 [\<lparr>u = 1, v = 0, weight = 5\<rparr>]]\<rparr> 0 = Inl IndexError"
  by (simp add: weighted_add_edge_by_indices_def add_edge_def init_def subscript_def
      append_at_def weighted_reversed_def valid_index_def vertex_count_def
      neighbors_for_index_with_weights_def edges_for_index_def getitem_def vertex_at_def)

text \<open>
  Claim C4, amended. On a weighted graph whose adjacency sequence is as long as its
  vertex sequence, valid indices \<open>a\<close> and \<open>b\<close> and a weight \<open>w\<close>,
  \<^verbatim>\<open>add_edge_by_indices(a, b, w)\<close> returns normally and appends the entry \<open>a -> b\<close> to
  the list of \<open>a\<close> and the entry \<open>b -> a\<close> to the list of \<open>b\<close>, both with the weight
  \<open>w\<close>. If \<^verbatim>\<open>neighbors_for_index_with_weights(a)\<close> returned before the call, it
  returns afterwards, with the pair of the vertex at \<open>b\<close> and \<open>w\<close> appended to its
  earlier result, so it contains that pair; likewise for
  \<^verbatim>\<open>neighbors_for_index_with_weights(b)\<close> and the pair of the vertex at \<open>a\<close> and the
  same \<open>w\<close>.
\<close>

theorem weighted_add_edge_mirrors_weight:
  assumes "length (edges g) = length (vertices g)"
    and "valid_index g a" and "valid_index g b"
  shows "\<exists>g' xa xb. weighted_add_edge_by_indices g a b w = (Inr (), g') \<and>
    vertices g' = vertices g \<and> length (edges g') = length (edges g) \<and>
    (\<forall>k<length (edges g). edges g' ! k =
       edges g ! k @ (if k = nat a then [\<lparr>u = a, v = b, weight = w\<rparr>] else [])
                   @ (if k = nat b then [\<lparr>u = b, v = a, weight = w\<rparr>] else [])) \<and>
    vertex_at g' a = Inr xa \<and> vertex_at g' b = Inr xb \<and>
    (\<forall>ns. neighbors_for_index_with_weights g a = Inr ns \<longrightarrow>
       (\<exists>ms. neighbors_for_index_with_weights g' a = Inr ms \<and> (xb, w) \<in> set ms \<and>
          ms = ns @ [(xb, w)] @ (if a = b then [(xa, w)] else []))) \<and>
    (\<forall>ns. neighbors_for_index_with_weights g b = Inr ns \<longrightarrow>
       (\<exists>ms. neighbors_for_index_with_weights g' b = Inr ms \<and> (xa, w) \<in> set ms \<and>
          ms = ns @ (if a = b then [(xb, w)] else []) @ [(xa, w)]))"
proof -
  let ?e = "\<lparr>u = a, v = b, weight = w\<rparr>"
  let ?r = "\<lparr>u = b, v = a, weight = w\<rparr>"
  let ?xa = "vertices g ! nat a" and ?xb = "vertices g ! nat b"
  have ends: "valid_index g (u ?e)" "valid_index g (v ?e)"
    using assms(2,3) by simp_all
  from add_edge_success [OF assms(1) ends, of weighted_reversed] obtain g' where
    run: "add_edge weighted_reversed g ?e = (Inr (), g')"
    and vs: "vertices g' = vertices g"
    and es: "length (edges g') = length (edges g)"
    and nth: "\<forall>k<length (edges g). edges g' ! k =
       edges g ! k @ (if k = nat a then [?e] else [])
                   @ (if k = nat b then [weighted_reversed ?e] else [])"
    by auto
  from nth have nth': "\<forall>k<length (edges g). edges g' ! k =
       edges g ! k @ (if k = nat a then [?e] else []) @ (if k = nat b then [?r] else [])"
    by (simp add: weighted_reversed_def)
  from assms have lt: "nat a < length (edges g)" "nat b < length (edges g)"
    by (simp_all add: valid_index_nat_less)
  from assms(2,3) have nn: "0 \<le> a" "0 \<le> b" by (simp_all add: valid_index_def)
  then have same: "nat a = nat b \<longleftrightarrow> a = b" by auto
  have ata: "vertex_at g a = Inr ?xa" and atb: "vertex_at g b = Inr ?xb"
    using assms(2,3) by (simp_all add: vertex_at_valid)
  have ata': "vertex_at g' a = Inr ?xa" and atb': "vertex_at g' b = Inr ?xb"
    using ata atb by (simp_all add: vertex_at_same_vertices [OF vs])
  from nth' lt same have ea: "edges g' ! nat a =
      edges g ! nat a @ ([?e] @ (if a = b then [?r] else []))"
    by simp
  from nth' lt same have eb: "edges g' ! nat b =
      edges g ! nat b @ ((if a = b then [?e] else []) @ [?r])"
    by auto
  have ma: "\<And>ns. distance_tuples g ([?e] @ (if a = b then [?r] else [])) ns =
      Inr (ns @ [(?xb, w)] @ (if a = b then [(?xa, w)] else []))"
    by (simp add: ata atb)
  have mb: "\<And>ns. distance_tuples g ((if a = b then [?e] else []) @ [?r]) ns =
      Inr (ns @ (if a = b then [(?xb, w)] else []) @ [(?xa, w)])"
    by (simp add: ata atb)
  have A: "\<forall>ns. neighbors_for_index_with_weights g a = Inr ns \<longrightarrow>
       (\<exists>ms. neighbors_for_index_with_weights g' a = Inr ms \<and> (?xb, w) \<in> set ms \<and>
          ms = ns @ [(?xb, w)] @ (if a = b then [(?xa, w)] else []))"
  proof (intro allI impI)
    fix ns assume "neighbors_for_index_with_weights g a = Inr ns"
    from weighted_neighbors_after_append [OF assms(1,2) vs es ea this ma]
    show "\<exists>ms. neighbors_for_index_with_weights g' a = Inr ms \<and> (?xb, w) \<in> set ms \<and>
          ms = ns @ [(?xb, w)] @ (if a = b then [(?xa, w)] else [])"
      by simp
  qed
  have B: "\<forall>ns. neighbors_for_index_with_weights g b = Inr ns \<longrightarrow>
       (\<exists>ms. neighbors_for_index_with_weights g' b = Inr ms \<and> (?xa, w) \<in> set ms \<and>
          ms = ns @ (if a = b then [(?xb, w)] else []) @ [(?xa, w)])"
  proof (intro allI impI)
    fix ns assume "neighbors_for_index_with_weights g b = Inr ns"
    from weighted_neighbors_after_append [OF assms(1,3) vs es eb this mb]
    show "\<exists>ms. neighbors_for_index_with_weights g' b = Inr ms \<and> (?xa, w) \<in> set ms \<and>
          ms = ns @ (if a = b then [(?xb, w)] else []) @ [(?xa, w)]"
      by simp
  qed
  from run vs es nth' ata' atb' A B show ?thesis
    unfolding weighted_add_edge_by_indices_def by blast
qed

theorem weighted_add_edge_mirrors_weight_witness:
  "length (edges (init [''X'', ''Y''] :: (string, int weighted_edge) graph)) =
     length (vertices (init [''X'', ''Y''] :: (string, int weighted_edge) graph)) \<and>
   valid_index (init [''X'', ''Y''] :: (string, int weighted_edge) graph) 0 \<and>
   valid_index (init [''X'', ''Y''] :: (string, int weighted_edge) graph) 1 \<and>
   neighbors_for_index_with_weights
     (init [''X'', ''Y''] :: (string, int weighted_edge) graph) 0 = Inr [] \<and>
   neighbors_for_index_with_weights
     (init [''X'', ''Y''] :: (string, int weighted_edge) graph) 1 = Inr [] \<and>
   weighted_add_edge_by_indices (init [''X'', ''Y'']) 0 1 (5 :: int) =
     (Inr (), \<lparr>vertices = [''X'', ''Y''],
               edges = [[\<lparr>u = 0, v = 1, weight = 5\<rparr>], [\<lparr>u = 1, v = 0, weight = 5\<rparr>]]\<rparr>) \<and>
   neighbors_for_index_with_weights \<lparr>vertices = [''X'', ''Y''],
       edges = [[\<lparr>u = 0, v = 1, weight = 5 :: int\<rparr>], [\<lparr>u = 1, v = 0, weight = 5\<rparr>]]\<rparr> 0 =
     Inr [(''Y'', 5)] \<and>
   neighbors_for_index_with_weights \<lparr>vertices = [''X'', ''Y''],
       edges = [[\<lparr>u = 0, v = 1, weight = 5 :: int\<rparr>], [\<lparr>u = 1, v = 0, weight = 5\<rparr>]]\<rparr> 1 =
     Inr [(''X'', 5)]"
proof -
  let ?g = "init [''X'', ''Y''] :: (string, int weighted_edge) graph"
  let ?g' = "\<lparr>vertices = [''X'', ''Y''],
       edges = [[\<lparr>u = 0, v = 1, weight = 5 :: int\<rparr>], [\<lparr>u = 1, v = 0, weight = 5\<rparr>]]\<rparr>"
  have len: "length (edges ?g) = length (vertices ?g)" by (simp add: init_def)
  have v0: "valid_index ?g 0" and v1: "valid_index ?g 1"
    by (simp_all add: valid_index_def vertex_count_def init_def)
  have n0: "neighbors_for_index_with_weights ?g 0 = Inr []"
    and n1: "neighbors_for_index_with_weights ?g 1 = Inr []"
    by (simp_all add: neighbors_for_index_with_weights_def edges_for_index_def getitem_def
        subscript_def init_def)
  have run: "weighted_add_edge_by_indices ?g 0 1 5 = (Inr (), ?g')"
    by (simp add: weighted_add_edge_by_indices_def add_edge_def init_def subscript_def
        append_at_def weighted_reversed_def)
  from weighted_add_edge_mirrors_weight [OF len v0 v1, of 5] obtain g' xa xb where
    r: "weighted_add_edge_by_indices ?g 0 1 5 = (Inr (), g')"
    and xa: "vertex_at g' 0 = Inr xa" and xb: "vertex_at g' 1 = Inr xb"
    and A: "\<forall>ns. neighbors_for_index_with_weights ?g 0 = Inr ns \<longrightarrow>
       (\<exists>ms. neighbors_for_index_with_weights g' 0 = Inr ms \<and> (xb, 5) \<in> set ms \<and>
          ms = ns @ [(xb, 5)] @ (if (0::int) = 1 then [(xa, 5)] else []))"
    and B: "\<forall>ns. neighbors_for_index_with_weights ?g 1 = Inr ns \<longrightarrow>
       (\<exists>ms. neighbors_for_index_with_weights g' 1 = Inr ms \<and> (xa, 5) \<in> set ms \<and>
          ms = ns @ (if (0::int) = 1 then [(xb, 5)] else []) @ [(xa, 5)])"
    by blast
  from r run have g': "g' = ?g'" by simp
  from xa xb have x: "xa = ''X''" "xb = ''Y''"
    by (simp_all add: g' vertex_at_def getitem_def subscript_def)
  from A n0 have "neighbors_for_index_with_weights ?g' 0 = Inr [(''Y'', 5)]"
    by (simp add: g' x)
  moreover from B n1 have "neighbors_for_index_with_weights ?g' 1 = Inr [(''X'', 5)]"
    by (simp add: g' x)
  ultimately show ?thesis using len v0 v1 n0 n1 run by simp
qed

end
